theory Spec2Isabelle
  imports Complex_Main
begin

section \<open>Numbers: Go's float64\<close>

text \<open>
  The program computes on \<open>float64\<close>. A value is modelled as a finite real number or one
  of the three special values of IEEE 754 that Go's arithmetic produces and propagates:
  the two infinities and NaN. Arithmetic on finite values is exact (the two zeros are one
  value; rounding to 53 bits is written out separately, in the section on binary64, for
  the statement that depends on the last digit of a result); the special
  values follow IEEE 754 as Go implements it: an operation on NaN gives NaN, \<open>0/0\<close>,
  \<open>\<infinity> - \<infinity>\<close>, \<open>0 * \<infinity>\<close> and \<open>\<infinity>/\<infinity>\<close> give NaN, a nonzero
  finite value divided by zero gives an infinity, and every ordered comparison with NaN is
  false.
\<close>

datatype float64 = Fin real | PInf | NInf | NaN

fun fneg :: "float64 \<Rightarrow> float64" where
  "fneg (Fin a) = Fin (- a)"
| "fneg PInf = NInf"
| "fneg NInf = PInf"
| "fneg NaN = NaN"

fun fadd :: "float64 \<Rightarrow> float64 \<Rightarrow> float64" where
  "fadd (Fin a) (Fin b) = Fin (a + b)"
| "fadd (Fin a) PInf = PInf"
| "fadd (Fin a) NInf = NInf"
| "fadd (Fin a) NaN = NaN"
| "fadd PInf (Fin b) = PInf"
| "fadd PInf PInf = PInf"
| "fadd PInf NInf = NaN"
| "fadd PInf NaN = NaN"
| "fadd NInf (Fin b) = NInf"
| "fadd NInf PInf = NaN"
| "fadd NInf NInf = NInf"
| "fadd NInf NaN = NaN"
| "fadd NaN y = NaN"

definition fsub :: "float64 \<Rightarrow> float64 \<Rightarrow> float64" where
  "fsub x y = fadd x (fneg y)"

text \<open>The sign of a product or quotient with an infinity: the infinity of that sign.\<close>

definition inf_of_sign :: "bool \<Rightarrow> float64" where
  "inf_of_sign positive = (if positive then PInf else NInf)"

fun fmul :: "float64 \<Rightarrow> float64 \<Rightarrow> float64" where
  "fmul (Fin a) (Fin b) = Fin (a * b)"
| "fmul (Fin a) PInf = (if a = 0 then NaN else inf_of_sign (0 < a))"
| "fmul (Fin a) NInf = (if a = 0 then NaN else inf_of_sign (a < 0))"
| "fmul (Fin a) NaN = NaN"
| "fmul PInf (Fin b) = (if b = 0 then NaN else inf_of_sign (0 < b))"
| "fmul PInf PInf = PInf"
| "fmul PInf NInf = NInf"
| "fmul PInf NaN = NaN"
| "fmul NInf (Fin b) = (if b = 0 then NaN else inf_of_sign (b < 0))"
| "fmul NInf PInf = NInf"
| "fmul NInf NInf = PInf"
| "fmul NInf NaN = NaN"
| "fmul NaN y = NaN"

fun fdiv :: "float64 \<Rightarrow> float64 \<Rightarrow> float64" where
  "fdiv (Fin a) (Fin b) =
     (if b = 0 then (if a = 0 then NaN else inf_of_sign (0 < a)) else Fin (a / b))"
| "fdiv (Fin a) PInf = Fin 0"
| "fdiv (Fin a) NInf = Fin 0"
| "fdiv (Fin a) NaN = NaN"
| "fdiv PInf (Fin b) = inf_of_sign (0 \<le> b)"
| "fdiv PInf PInf = NaN"
| "fdiv PInf NInf = NaN"
| "fdiv PInf NaN = NaN"
| "fdiv NInf (Fin b) = inf_of_sign (b < 0)"
| "fdiv NInf PInf = NaN"
| "fdiv NInf NInf = NaN"
| "fdiv NInf NaN = NaN"
| "fdiv NaN y = NaN"

text \<open>The comparisons \<open><\<close>, \<open>>\<close>, \<open><=\<close> and \<open>==\<close> of Go on float64.\<close>

fun flt :: "float64 \<Rightarrow> float64 \<Rightarrow> bool" where
  "flt (Fin a) (Fin b) = (a < b)"
| "flt (Fin a) PInf = True"
| "flt (Fin a) NInf = False"
| "flt (Fin a) NaN = False"
| "flt PInf y = False"
| "flt NInf (Fin b) = True"
| "flt NInf PInf = True"
| "flt NInf NInf = False"
| "flt NInf NaN = False"
| "flt NaN y = False"

definition fgt :: "float64 \<Rightarrow> float64 \<Rightarrow> bool" where
  "fgt x y = flt y x"

definition feq :: "float64 \<Rightarrow> float64 \<Rightarrow> bool" where
  "feq x y = (x \<noteq> NaN \<and> y \<noteq> NaN \<and> x = y)"

definition fle :: "float64 \<Rightarrow> float64 \<Rightarrow> bool" where
  "fle x y = (flt x y \<or> feq x y)"

text \<open>\<open>math.Abs\<close>, \<open>math.Sqrt\<close>, \<open>math.Min\<close> and \<open>math.Max\<close> of Go's standard library,
  with their documented special cases: \<open>Min\<close> checks for \<open>-Inf\<close> first and for NaN
  second, \<open>Max\<close> for \<open>+Inf\<close> first and for NaN second.\<close>

fun fabs :: "float64 \<Rightarrow> float64" where
  "fabs (Fin a) = Fin \<bar>a\<bar>"
| "fabs PInf = PInf"
| "fabs NInf = PInf"
| "fabs NaN = NaN"

fun fsqrt :: "float64 \<Rightarrow> float64" where
  "fsqrt (Fin a) = (if a < 0 then NaN else Fin (sqrt a))"
| "fsqrt PInf = PInf"
| "fsqrt NInf = NaN"
| "fsqrt NaN = NaN"

definition fmin :: "float64 \<Rightarrow> float64 \<Rightarrow> float64" where
  "fmin x y =
     (if x = NInf \<or> y = NInf then NInf
      else if x = NaN \<or> y = NaN then NaN
      else if flt x y then x else y)"

definition fmax :: "float64 \<Rightarrow> float64 \<Rightarrow> float64" where
  "fmax x y =
     (if x = PInf \<or> y = PInf then PInf
      else if x = NaN \<or> y = NaN then NaN
      else if fgt x y then x else y)"

text \<open>The conversion \<open>float64(n)\<close> of an \<open>int\<close>.\<close>

definition float64_of_int :: "int \<Rightarrow> float64" where
  "float64_of_int n = Fin (of_int n)"


section \<open>Package detect\<close>

subsection \<open>Data\<close>

text \<open>
  Methods are modelled as functions of a non-nil receiver, and a result returned through a
  pointer as the value it points to. The counters of type \<open>int\<close> count elements of a
  slice and cannot overflow; they are integers.

  \<open>PoisonType\<close> is a string type; its zero value is the empty string.
\<close>

type_synonym PoisonType = string

definition TypeBackdoor :: PoisonType where "TypeBackdoor = ''backdoor''"
definition TypeLabelFlip :: PoisonType where "TypeLabelFlip = ''label_flip''"
definition TypeGradientPoison :: PoisonType where "TypeGradientPoison = ''gradient_poison''"
definition TypeFeaturePoison :: PoisonType where "TypeFeaturePoison = ''feature_poison''"
definition TypeDataPoison :: PoisonType where "TypeDataPoison = ''data_poison''"

text \<open>A value of \<open>interface{}\<close> stored in a sample's metadata.\<close>

datatype any = AnyBool bool | AnyInt int | AnyFloat float64 | AnyString string

text \<open>\<open>Sample\<close>: the metadata map is a reference that may be \<open>nil\<close> (\<open>None\<close>).\<close>

record Sample =
  ID :: string
  Features :: "float64 list"
  Label :: int
  Metadata :: "(string \<rightharpoonup> any) option"

record PoisonedSample =
  pID :: string
  IsPoisoned :: bool
  Score :: float64
  Type :: PoisonType
  Description :: string
  Evidence :: string
  Confidence :: float64

record DetectionResult =
  rIsPoisoned :: bool
  SampleCount :: int
  PoisonedCount :: int
  Samples :: "PoisonedSample list"
  RiskScore :: float64
  Method :: string

record Detector =
  thresholds :: "PoisonType \<rightharpoonup> float64"

definition NewDetector :: Detector where
  "NewDetector = \<lparr> thresholds =
     [TypeBackdoor \<mapsto> Fin (7/10),
      TypeLabelFlip \<mapsto> Fin (6/10),
      TypeGradientPoison \<mapsto> Fin (65/100),
      TypeFeaturePoison \<mapsto> Fin (7/10),
      TypeDataPoison \<mapsto> Fin (65/100)] \<rparr>"

text \<open>Reading a Go map: a missing key reads as the zero value.\<close>

definition threshold :: "Detector \<Rightarrow> PoisonType \<Rightarrow> float64" where
  "threshold d t = (case thresholds d t of None \<Rightarrow> Fin 0 | Some v \<Rightarrow> v)"

subsection \<open>Statistics\<close>

definition calculateAverage :: "float64 list \<Rightarrow> float64 list" where
  "calculateAverage features =
     (if length features = 0 then features
      else map (\<lambda>f. fdiv f (Fin 2)) features)"

definition calculateLabelLikelihood :: "Sample \<Rightarrow> float64" where
  "calculateLabelLikelihood sample = Fin (1/2)"

definition calculateMean :: "float64 list \<Rightarrow> float64" where
  "calculateMean features =
     (if length features = 0 then Fin 0
      else fdiv (foldl (\<lambda>sum f. fadd sum f) (Fin 0) features)
             (float64_of_int (int (length features))))"

definition calculateStdDev :: "float64 list \<Rightarrow> float64 \<Rightarrow> float64" where
  "calculateStdDev features mean =
     (if length features = 0 then Fin 0
      else fsqrt (fdiv
             (foldl (\<lambda>sum f. fadd sum (fmul (fsub f mean) (fsub f mean))) (Fin 0) features)
             (float64_of_int (int (length features)))))"

subsection \<open>The four scorers\<close>

definition checkBackdoor :: "Sample \<Rightarrow> float64" where
  "checkBackdoor sample =
     (let avgFeatures = calculateAverage (Features sample);
          score = foldl (\<lambda>score i.
                    if fgt (fabs (fsub (Features sample ! i) (avgFeatures ! i))) (Fin 3)
                    then fadd score (Fin (1/10)) else score)
                  (Fin 0) [0 ..< length (Features sample)]
      in fmin score (Fin 1))"

definition checkLabelFlip :: "Sample \<Rightarrow> float64" where
  "checkLabelFlip sample =
     (let likelihood = calculateLabelLikelihood sample
      in if flt likelihood (Fin (3/10)) then fsub (Fin 1) likelihood else Fin 0)"

definition checkGradientPoison :: "Sample \<Rightarrow> float64" where
  "checkGradientPoison sample =
     (let mean = calculateMean (Features sample);
          stdDev = calculateStdDev (Features sample) mean;
          outliers = foldl (\<lambda>outliers f.
                       if fgt stdDev (Fin 0) \<and> fgt (fdiv (fabs (fsub f mean)) stdDev) (Fin 2)
                       then outliers + 1 else outliers)
                     (0::int) (Features sample);
          outlierRatio = fdiv (float64_of_int outliers)
                           (float64_of_int (int (length (Features sample))));
          score = fmul outlierRatio (Fin 2)
      in fmin score (Fin 1))"

definition checkFeaturePoison :: "Sample \<Rightarrow> float64" where
  "checkFeaturePoison sample =
     (let mean = calculateMean (Features sample);
          stdDev = calculateStdDev (Features sample) mean;
          maxZScore = foldl (\<lambda>maxZScore f.
                        if fgt stdDev (Fin 0)
                        then (let zScore = fdiv (fabs (fsub f mean)) stdDev
                              in if fgt zScore maxZScore then zScore else maxZScore)
                        else maxZScore)
                      (Fin 0) (Features sample)
      in fmin (fdiv maxZScore (Fin 5)) (Fin 1))"

subsection \<open>The detector\<close>

definition analyzeSample :: "Detector \<Rightarrow> Sample \<Rightarrow> PoisonedSample" where
  "analyzeSample d sample =
     (let result0 = \<lparr> pID = ID sample, IsPoisoned = False, Score = Fin 0, Type = '''',
                      Description = '''', Evidence = '''', Confidence = Fin 0 \<rparr>;
          backdoorScore = checkBackdoor sample;
          result1 = (if fgt backdoorScore (threshold d TypeBackdoor)
                     then result0 \<lparr> IsPoisoned := True, Type := TypeBackdoor,
                            Score := backdoorScore, Confidence := backdoorScore,
                            Description := ''Potential backdoor trigger detected'',
                            Evidence := ''Unusual feature pattern'' \<rparr>
                     else result0);
          labelScore = checkLabelFlip sample;
          result2 = (if fgt labelScore (threshold d TypeLabelFlip)
                     then result1 \<lparr> IsPoisoned := True, Type := TypeLabelFlip,
                            Score := fmax (Score result1) labelScore, Confidence := labelScore,
                            Description := ''Suspicious label assignment detected'',
                            Evidence := ''Label-feature inconsistency'' \<rparr>
                     else result1);
          gradientScore = checkGradientPoison sample;
          result3 = (if fgt gradientScore (threshold d TypeGradientPoison)
                     then result2 \<lparr> IsPoisoned := True, Type := TypeGradientPoison,
                            Score := fmax (Score result2) gradientScore,
                            Confidence := gradientScore,
                            Description := ''Gradient manipulation detected'',
                            Evidence := ''Abnormal gradient pattern'' \<rparr>
                     else result2);
          featureScore = checkFeaturePoison sample;
          result4 = (if fgt featureScore (threshold d TypeFeaturePoison)
                     then result3 \<lparr> IsPoisoned := True, Type := TypeFeaturePoison,
                            Score := fmax (Score result3) featureScore,
                            Confidence := featureScore,
                            Description := ''Feature manipulation detected'',
                            Evidence := ''Anomalous feature values'' \<rparr>
                     else result3)
      in result4)"

definition calculateRiskScore :: "DetectionResult \<Rightarrow> float64" where
  "calculateRiskScore result =
     (if SampleCount result = 0 then Fin 0
      else
        (let ratio = fdiv (float64_of_int (PoisonedCount result))
                       (float64_of_int (SampleCount result));
             totalConfidence = foldl (\<lambda>total sample. fadd total (Confidence sample))
                                 (Fin 0) (Samples result);
             avgConfidence = fdiv totalConfidence (float64_of_int (SampleCount result));
             score = fadd (fmul ratio (Fin (7/10))) (fmul avgConfidence (Fin (3/10)))
         in score))"

text \<open>The loop of \<open>Detect\<close>: one verdict appended and the counter advanced per sample.\<close>

definition detect_step :: "Detector \<Rightarrow> DetectionResult \<Rightarrow> Sample \<Rightarrow> DetectionResult" where
  "detect_step d result sample =
     (let poisoned = analyzeSample d sample;
          result' = result \<lparr> Samples := Samples result @ [poisoned] \<rparr>
      in if IsPoisoned poisoned
         then result' \<lparr> PoisonedCount := PoisonedCount result' + 1 \<rparr>
         else result')"

definition Detect :: "Detector \<Rightarrow> Sample list \<Rightarrow> DetectionResult" where
  "Detect d samples =
     (let result0 = \<lparr> rIsPoisoned = False, SampleCount = 0, PoisonedCount = 0, Samples = [],
                      RiskScore = Fin 0, Method = ''ensemble_detection'' \<rparr>;
          result1 = foldl (detect_step d) result0 samples;
          result2 = result1 \<lparr> SampleCount := int (length samples) \<rparr>;
          result3 = result2 \<lparr> rIsPoisoned := (0 < PoisonedCount result2) \<rparr>
      in result3 \<lparr> RiskScore := calculateRiskScore result3 \<rparr>)"


section \<open>Package defend\<close>

subsection \<open>Data\<close>

text \<open>
  Modelled from the spec: the type \<open>Sample\<close> that package defend's functions take is
  declared in none of the files at hand. The spec's data model has one \<open>Sample\<close>
  (identifier, features, label, metadata map from strings to arbitrary values), and
  \<open>detectOutliers\<close> assigns a \<open>bool\<close> under a string key of \<open>Metadata\<close>, so the
  record \<open>Sample\<close> of package detect is used. The methods \<open>calculateMean\<close> and
  \<open>calculateStdDev\<close> of \<open>Defender\<close> repeat those of \<open>Detector\<close> line by line and
  share their definitions here.
\<close>

record DefenseStrategy =
  Name :: string
  sDescription :: string
  Effectiveness :: float64
  Overhead :: float64
  sType :: string

record DefenseResult =
  Success :: bool
  StrategyUsed :: string
  Improvement :: float64
  RiskReduction :: float64
  Cost :: float64

record Defender =
  strategies :: "DefenseStrategy list"

definition NewDefender :: Defender where
  "NewDefender = \<lparr> strategies =
     [\<lparr> Name = ''Data Cleaning'', sDescription = ''Remove suspicious samples'',
        Effectiveness = Fin (75/100), Overhead = Fin (2/10), sType = ''preprocessing'' \<rparr>,
      \<lparr> Name = ''Robust Aggregation'', sDescription = ''Use robust aggregation methods'',
        Effectiveness = Fin (8/10), Overhead = Fin (15/100), sType = ''aggregation'' \<rparr>,
      \<lparr> Name = ''Input Filtering'', sDescription = ''Filter malicious inputs'',
        Effectiveness = Fin (7/10), Overhead = Fin (1/10), sType = ''filtering'' \<rparr>,
      \<lparr> Name = ''Adversarial Training'', sDescription = ''Train on poisoned examples'',
        Effectiveness = Fin (85/100), Overhead = Fin (4/10), sType = ''training'' \<rparr>,
      \<lparr> Name = ''Outlier Detection'', sDescription = ''Detect and remove outliers'',
        Effectiveness = Fin (65/100), Overhead = Fin (12/100), sType = ''detection'' \<rparr>,
      \<lparr> Name = ''Ensemble Defense'', sDescription = ''Use multiple models'',
        Effectiveness = Fin (9/10), Overhead = Fin (5/10), sType = ''ensemble'' \<rparr>] \<rparr>"

text \<open>A run-time panic of Go: the program stops instead of returning.\<close>

datatype panic = NilMapAssignment | NilDereference

subsection \<open>Defend\<close>

text \<open>The loop of \<open>Defend\<close> returns at the first strategy whose name is the one asked for;
  after the loop the result has \<open>Success\<close> false and every other field at its zero value.\<close>

fun Defend_loop :: "DefenseStrategy list \<Rightarrow> float64 \<Rightarrow> string \<Rightarrow> DefenseResult" where
  "Defend_loop [] poisoningRisk strategy =
     \<lparr> Success = False, StrategyUsed = '''', Improvement = Fin 0, RiskReduction = Fin 0,
       Cost = Fin 0 \<rparr>"
| "Defend_loop (strat # rest) poisoningRisk strategy =
     (if Name strat = strategy
      then (let improvement = fmul (Effectiveness strat) poisoningRisk;
                riskReduction = fsub poisoningRisk improvement
            in \<lparr> Success = True, StrategyUsed = Name strat, Improvement = improvement,
                 RiskReduction = riskReduction, Cost = Overhead strat \<rparr>)
      else Defend_loop rest poisoningRisk strategy)"

definition Defend :: "Defender \<Rightarrow> float64 \<Rightarrow> string \<Rightarrow> DefenseResult" where
  "Defend d poisoningRisk strategy = Defend_loop (strategies d) poisoningRisk strategy"

subsection \<open>ApplyDefense\<close>

definition isSuspicious :: "Sample \<Rightarrow> bool" where
  "isSuspicious sample =
     (let mean = calculateMean (Features sample);
          stdDev = calculateStdDev (Features sample) mean
      in list_ex (\<lambda>f. fgt stdDev (Fin 0) \<and> fgt (fdiv (fabs (fsub f mean)) stdDev) (Fin 3))
           (Features sample))"

definition isValidInput :: "Sample \<Rightarrow> bool" where
  "isValidInput sample =
     (if length (Features sample) = 0 then False
      else \<not> list_ex (\<lambda>f. flt f (Fin (- 100)) \<or> fgt f (Fin 100)) (Features sample))"

definition isOutlier :: "Sample \<Rightarrow> bool" where
  "isOutlier sample =
     (let mean = calculateMean (Features sample);
          stdDev = calculateStdDev (Features sample) mean
      in if feq stdDev (Fin 0) then False
         else list_ex (\<lambda>f. fgt (fdiv (fabs (fsub f mean)) stdDev) (Fin (25/10)))
                (Features sample))"

definition cleanData :: "Sample list \<Rightarrow> Sample list" where
  "cleanData samples = filter (\<lambda>sample. \<not> isSuspicious sample) samples"

definition filterInputs :: "Sample list \<Rightarrow> Sample list" where
  "filterInputs samples = filter (\<lambda>sample. isValidInput sample) samples"

text \<open>
  \<open>detectOutliers\<close> writes into the metadata map of each outlier, in the order of the
  slice. Assigning to an entry of a \<open>nil\<close> map panics: the loop stops there and nothing
  is returned. The maps of distinct samples are taken to be distinct objects.
\<close>

fun detectOutliers :: "Sample list \<Rightarrow> panic + Sample list" where
  "detectOutliers [] = Inr []"
| "detectOutliers (sample # rest) =
     (if isOutlier sample
      then (case Metadata sample of
              None \<Rightarrow> Inl NilMapAssignment
            | Some m \<Rightarrow>
                (case detectOutliers rest of
                   Inl p \<Rightarrow> Inl p
                 | Inr rest' \<Rightarrow>
                     Inr (sample \<lparr> Metadata := Some (m(''suspicious'' \<mapsto> AnyBool True)) \<rparr>
                          # rest')))
      else (case detectOutliers rest of
              Inl p \<Rightarrow> Inl p
            | Inr rest' \<Rightarrow> Inr (sample # rest')))"

definition applyStrategy :: "Sample list \<Rightarrow> DefenseStrategy \<Rightarrow> panic + Sample list" where
  "applyStrategy samples strategy =
     (if sType strategy = ''preprocessing'' then Inr (cleanData samples)
      else if sType strategy = ''filtering'' then Inr (filterInputs samples)
      else if sType strategy = ''detection'' then detectOutliers samples
      else Inr samples)"

fun ApplyDefense_loop :: "DefenseStrategy list \<Rightarrow> Sample list \<Rightarrow> string \<Rightarrow> panic + Sample list"
  where
  "ApplyDefense_loop [] samples strategy = Inr samples"
| "ApplyDefense_loop (strat # rest) samples strategy =
     (if Name strat = strategy then applyStrategy samples strat
      else ApplyDefense_loop rest samples strategy)"

definition ApplyDefense :: "Defender \<Rightarrow> Sample list \<Rightarrow> string \<Rightarrow> panic + Sample list" where
  "ApplyDefense d samples strategy = ApplyDefense_loop (strategies d) samples strategy"

subsection \<open>Recommendation and score\<close>

definition RecommendDefense :: "float64 \<Rightarrow> string" where
  "RecommendDefense poisoningRisk =
     (if fgt poisoningRisk (Fin (7/10)) then ''Adversarial Training''
      else if fgt poisoningRisk (Fin (5/10)) then ''Ensemble Defense''
      else if fgt poisoningRisk (Fin (3/10)) then ''Robust Aggregation''
      else if fgt poisoningRisk (Fin (1/10)) then ''Data Cleaning''
      else ''Outlier Detection'')"

text \<open>
  \<open>CalculateDefenseScore\<close> takes a slice of pointers; a \<open>nil\<close> element (\<open>None\<close>) panics
  when its field is read. The loop adds the improvement of each successful result.
\<close>

fun score_loop :: "float64 \<Rightarrow> DefenseResult option list \<Rightarrow> panic + float64" where
  "score_loop score [] = Inr score"
| "score_loop score (None # rest) = Inl NilDereference"
| "score_loop score (Some result # rest) =
     score_loop (if Success result then fadd score (Improvement result) else score) rest"

definition CalculateDefenseScore :: "DefenseResult option list \<Rightarrow> panic + float64" where
  "CalculateDefenseScore results =
     (if length results = 0 then Inr (Fin 0)
      else (case score_loop (Fin 0) results of
              Inl p \<Rightarrow> Inl p
            | Inr score \<Rightarrow> Inr (fdiv score (float64_of_int (int (length results))))))"


section \<open>Notions of the specification\<close>

text \<open>A value lies in the closed interval from \<open>lo\<close> to \<open>hi\<close>; NaN lies in no interval.\<close>

definition in_closed_range :: "float64 \<Rightarrow> float64 \<Rightarrow> float64 \<Rightarrow> bool" where
  "in_closed_range lo hi f = (fle lo f \<and> fle f hi)"

definition in_unit_interval :: "float64 \<Rightarrow> bool" where
  "in_unit_interval x = in_closed_range (Fin 0) (Fin 1) x"

text \<open>The arithmetic mean of a non-empty sequence: the sum divided by the length.\<close>

definition arithmetic_mean :: "float64 list \<Rightarrow> float64" where
  "arithmetic_mean xs = fdiv (foldl fadd (Fin 0) xs) (float64_of_int (int (length xs)))"

text \<open>
  The four checks of \<open>analyzeSample\<close> in the order in which it runs them: the scorer's
  output with the type, description and evidence that the check records. A check is
  exceeded when its score is strictly above the detector's threshold for its type.
\<close>

definition checks :: "Sample \<Rightarrow> (float64 \<times> PoisonType \<times> string \<times> string) list" where
  "checks sample =
     [(checkBackdoor sample, TypeBackdoor,
         ''Potential backdoor trigger detected'', ''Unusual feature pattern''),
      (checkLabelFlip sample, TypeLabelFlip,
         ''Suspicious label assignment detected'', ''Label-feature inconsistency''),
      (checkGradientPoison sample, TypeGradientPoison,
         ''Gradient manipulation detected'', ''Abnormal gradient pattern''),
      (checkFeaturePoison sample, TypeFeaturePoison,
         ''Feature manipulation detected'', ''Anomalous feature values'')]"

definition exceeded :: "Detector \<Rightarrow> Sample \<Rightarrow> (float64 \<times> PoisonType \<times> string \<times> string) list"
  where
  "exceeded d sample =
     filter (\<lambda>(score, t, description, evidence). fgt score (threshold d t)) (checks sample)"

subsection \<open>Concrete inputs\<close>

text \<open>A sample without features, and one whose only feature is NaN.\<close>

definition empty_sample :: Sample where
  "empty_sample = \<lparr> ID = ''empty'', Features = [], Label = 0, Metadata = None \<rparr>"

definition nan_sample :: Sample where
  "nan_sample = \<lparr> ID = ''nan'', Features = [NaN], Label = 0, Metadata = None \<rparr>"

text \<open>Eight features of value 10: each is more than 3 away from its half, and the
  standard deviation is 0.\<close>

definition backdoor_sample :: Sample where
  "backdoor_sample =
     \<lparr> ID = ''backdoor'',
       Features = [Fin 10, Fin 10, Fin 10, Fin 10, Fin 10, Fin 10, Fin 10, Fin 10],
       Label = 1, Metadata = None \<rparr>"




text \<open>Two defense results: a successful one with improvement 0.4 and a failed one.\<close>

definition success_result :: DefenseResult where
  "success_result =
     \<lparr> Success = True, StrategyUsed = ''Robust Aggregation'', Improvement = Fin (4/10),
       RiskReduction = Fin (1/10), Cost = Fin (15/100) \<rparr>"

definition failed_result :: DefenseResult where
  "failed_result =
     \<lparr> Success = False, StrategyUsed = '''', Improvement = Fin 0, RiskReduction = Fin 0,
       Cost = Fin 0 \<rparr>"


section \<open>Defend in binary64 arithmetic\<close>

text \<open>
  Go's \<open>float64\<close> is the binary64 format of IEEE 754: every decimal literal and the exact
  result of every arithmetic operation is rounded to the nearest number with a 53-bit
  significand, a tie going to the even significand. Where a statement depends on the last
  digit of a result, this rounding is written out. \<open>round_half_even\<close> rounds a real to the
  nearest integer with ties to even; \<open>binary_exponent x\<close> is the exponent \<open>e\<close> with
  \<open>2^e <= |x| < 2^(e+1)\<close>; \<open>binary64\<close> rounds to a multiple of the unit in the last
  place, \<open>2^(e-52)\<close> (with \<open>e\<close> at least -1022, the subnormal range), and overflows to an
  infinity from \<open>2^1024\<close> on.
\<close>

definition round_half_even :: "real \<Rightarrow> int" where
  "round_half_even y =
     (let n = \<lfloor>y\<rfloor>; r = y - of_int n
      in if r < 1/2 then n else if 1/2 < r then n + 1 else if even n then n else n + 1)"

definition binary_exponent :: "real \<Rightarrow> int" where
  "binary_exponent x = \<lfloor>log 2 \<bar>x\<bar>\<rfloor>"

definition binary64 :: "real \<Rightarrow> float64" where
  "binary64 x =
     (if x = 0 then Fin 0
      else (let e = max (binary_exponent x) (- 1022);
                u = 2 powi (e - 52);
                y = of_int (round_half_even (x / u)) * u
            in if 2 powi 1024 \<le> \<bar>y\<bar> then inf_of_sign (0 < x) else Fin y))"

text \<open>An operation of the machine: the exact result, rounded.\<close>

definition round_binary64 :: "float64 \<Rightarrow> float64" where
  "round_binary64 x =
     (case x of Fin a \<Rightarrow> binary64 a | PInf \<Rightarrow> PInf | NInf \<Rightarrow> NInf | NaN \<Rightarrow> NaN)"

definition fmul_binary64 :: "float64 \<Rightarrow> float64 \<Rightarrow> float64" where
  "fmul_binary64 x y = round_binary64 (fmul x y)"

definition fsub_binary64 :: "float64 \<Rightarrow> float64 \<Rightarrow> float64" where
  "fsub_binary64 x y = round_binary64 (fsub x y)"

text \<open>The catalog of \<open>NewDefender\<close> with its literals rounded, and \<open>Defend\<close> with its
  two operations rounded one by one.\<close>

definition NewDefender_binary64 :: Defender where
  "NewDefender_binary64 = \<lparr> strategies =
     map (\<lambda>s. s \<lparr> Effectiveness := round_binary64 (Effectiveness s),
                  Overhead := round_binary64 (Overhead s) \<rparr>)
       (strategies NewDefender) \<rparr>"

fun Defend_loop_binary64 :: "DefenseStrategy list \<Rightarrow> float64 \<Rightarrow> string \<Rightarrow> DefenseResult"
  where
  "Defend_loop_binary64 [] poisoningRisk strategy =
     \<lparr> Success = False, StrategyUsed = '''', Improvement = Fin 0, RiskReduction = Fin 0,
       Cost = Fin 0 \<rparr>"
| "Defend_loop_binary64 (strat # rest) poisoningRisk strategy =
     (if Name strat = strategy
      then (let improvement = fmul_binary64 (Effectiveness strat) poisoningRisk;
                riskReduction = fsub_binary64 poisoningRisk improvement
            in \<lparr> Success = True, StrategyUsed = Name strat, Improvement = improvement,
                 RiskReduction = riskReduction, Cost = Overhead strat \<rparr>)
      else Defend_loop_binary64 rest poisoningRisk strategy)"

definition Defend_binary64 :: "Defender \<Rightarrow> float64 \<Rightarrow> string \<Rightarrow> DefenseResult" where
  "Defend_binary64 d poisoningRisk strategy =
     Defend_loop_binary64 (strategies d) poisoningRisk strategy"


section \<open>Facts about the arithmetic\<close>

lemma fle_Fin [simp]: "fle (Fin a) (Fin b) = (a \<le> b)"
  by (auto simp: fle_def feq_def)

lemma fle_NaN [simp]: "\<not> fle NaN x" "\<not> fle x NaN"
  by (cases x; simp add: fle_def feq_def)+

lemma fgt_Fin [simp]: "fgt (Fin a) (Fin b) = (b < a)"
  by (simp add: fgt_def)

lemma fgt_NaN [simp]: "\<not> fgt NaN x" "\<not> fgt x NaN"
  by (cases x; simp add: fgt_def)+

lemma fgt_NInf [simp]: "\<not> fgt NInf x"
  by (cases x) (simp_all add: fgt_def)

lemma fgt_PInf_Fin [simp]: "fgt PInf (Fin b)"
  by (simp add: fgt_def)

lemma fle_PInf [simp]: "fle x PInf = (x \<noteq> NaN)"
  by (cases x) (simp_all add: fle_def feq_def)

lemma fgt_Fin_cases: "fgt x (Fin t) \<Longrightarrow> x = PInf \<or> (\<exists>r. x = Fin r \<and> t < r)"
  by (cases x) auto

lemma fmax_Fin [simp]: "fmax (Fin a) (Fin b) = Fin (max a b)"
  by (auto simp: fmax_def)

lemma fmax_PInf [simp]: "fmax x PInf = PInf" "fmax PInf x = PInf"
  by (auto simp: fmax_def)

lemma fmul_commute: "fmul x y = fmul y x"
  by (cases x; cases y) (auto simp: mult.commute)

lemma in_unit_interval_iff: "in_unit_interval x = (\<exists>r. x = Fin r \<and> 0 \<le> r \<and> r \<le> 1)"
  by (cases x) (auto simp: in_unit_interval_def in_closed_range_def fle_def feq_def)

lemma fmin_one_unit: "fle (Fin 0) x \<Longrightarrow> in_unit_interval (fmin x (Fin 1))"
  by (cases x) (auto simp: in_unit_interval_iff fmin_def fle_def feq_def)

lemma fdiv_five_nonneg: "fle (Fin 0) m \<Longrightarrow> fle (Fin 0) (fdiv m (Fin 5))"
  by (cases m) (auto simp: inf_of_sign_def)



section \<open>The scorers\<close>

subsection \<open>Loop invariants\<close>

text \<open>The score of \<open>checkBackdoor\<close> starts at 0 and only grows, by steps of 0.1.\<close>

lemma backdoor_loop_nonneg:
  "0 \<le> r \<Longrightarrow>
   \<exists>r'. foldl (\<lambda>score i. if P i then fadd score (Fin (1/10)) else score) (Fin r) js = Fin r'
        \<and> 0 \<le> r'"
  by (induction js arbitrary: r) auto

text \<open>The counter of \<open>checkGradientPoison\<close> counts at most every feature once.\<close>

lemma outliers_loop_bounds:
  "k \<le> foldl (\<lambda>outliers f. if P f then outliers + 1 else outliers) (k::int) fs \<and>
   foldl (\<lambda>outliers f. if P f then outliers + 1 else outliers) k fs \<le> k + int (length fs)"
proof (induction fs arbitrary: k)
  case Nil
  then show ?case by simp
next
  case (Cons f fs)
  show ?case
    using Cons.IH[of k] Cons.IH[of "k + 1"] by auto
qed

text \<open>The running maximum of \<open>checkFeaturePoison\<close> starts at 0 and is replaced only by
  a strictly greater z-score, so it is never negative and never NaN.\<close>

lemma maxZScore_loop_nonneg:
  "fle (Fin 0) m \<Longrightarrow>
   fle (Fin 0) (foldl (\<lambda>maxZScore f.
       if c then (if fgt (z f) maxZScore then z f else maxZScore) else maxZScore) m fs)"
proof (induction fs arbitrary: m)
  case Nil
  then show ?case by simp
next
  case (Cons f fs)
  have "fle (Fin 0) (if c then (if fgt (z f) m then z f else m) else m)"
    using Cons.prems by (cases m; cases "z f") (auto simp: fle_def feq_def fgt_def)
  from Cons.IH[OF this] show ?case by simp
qed

subsection \<open>Ranges\<close>

lemma checkBackdoor_unit: "in_unit_interval (checkBackdoor sample)"
proof -
  let ?P = "\<lambda>i. fgt (fabs (fsub (Features sample ! i)
                 (calculateAverage (Features sample) ! i))) (Fin 3)"
  obtain r' where
    "foldl (\<lambda>score i. if ?P i then fadd score (Fin (1/10)) else score) (Fin 0)
       [0 ..< length (Features sample)] = Fin r'" and "0 \<le> r'"
    using backdoor_loop_nonneg[of 0 ?P] by auto
  then show ?thesis
    by (simp add: checkBackdoor_def Let_def fmin_one_unit)
qed

lemma checkLabelFlip_unit: "in_unit_interval (checkLabelFlip sample)"
  by (simp add: checkLabelFlip_def calculateLabelLikelihood_def in_unit_interval_iff)

text \<open>
  Claim C6. For every sample, \<open>checkLabelFlip\<close> returns exactly 0: the placeholder
  likelihood is the constant 0.5, which is not below 0.3, so the branch that would
  assign a score is never taken.
\<close>

theorem checkLabelFlip_is_zero:
  "checkLabelFlip sample = Fin 0
   \<and> calculateLabelLikelihood sample = Fin (1/2)
   \<and> \<not> flt (calculateLabelLikelihood sample) (Fin (3/10))"
  by (simp add: checkLabelFlip_def calculateLabelLikelihood_def)

lemma checkGradientPoison_empty:
  "Features sample = [] \<Longrightarrow> checkGradientPoison sample = NaN"
  by (simp add: checkGradientPoison_def Let_def float64_of_int_def fmin_def)

lemma checkGradientPoison_unit:
  assumes "Features sample \<noteq> []"
  shows "in_unit_interval (checkGradientPoison sample)"
proof -
  define mean where "mean = calculateMean (Features sample)"
  define stdDev where "stdDev = calculateStdDev (Features sample) mean"
  define P where
    "P = (\<lambda>f. fgt stdDev (Fin 0) \<and> fgt (fdiv (fabs (fsub f mean)) stdDev) (Fin 2))"
  define k where
    "k = foldl (\<lambda>outliers f. if P f then outliers + 1 else outliers) (0::int) (Features sample)"
  have bounds: "0 \<le> k" "k \<le> int (length (Features sample))"
    using outliers_loop_bounds[of 0 P "Features sample"] by (auto simp: k_def)
  have len: "0 < length (Features sample)"
    using assms by simp
  have "checkGradientPoison sample =
          fmin (Fin (of_int k / of_nat (length (Features sample)) * 2)) (Fin 1)"
    using len
    by (simp add: checkGradientPoison_def Let_def float64_of_int_def k_def P_def
        stdDev_def mean_def)
  moreover have "0 \<le> (of_int k :: real) / of_nat (length (Features sample)) * 2"
    using bounds len by simp
  ultimately show ?thesis
    by (simp add: fmin_one_unit)
qed

lemma checkFeaturePoison_unit: "in_unit_interval (checkFeaturePoison sample)"
  unfolding checkFeaturePoison_def Let_def
  by (intro fmin_one_unit fdiv_five_nonneg maxZScore_loop_nonneg) simp

lemma checkGradientPoison_unit_or_NaN:
  "checkGradientPoison sample = NaN \<or> in_unit_interval (checkGradientPoison sample)"
  using checkGradientPoison_empty[of sample] checkGradientPoison_unit[of sample] by blast

text \<open>
  Claim C2 (each of the four scorers returns a value in [0,1], also for a sample with an
  empty feature sequence). Three scorers do, for every sample, and \<open>checkGradientPoison\<close>
  does for every sample that has a feature (the lemmas above). For a sample without
  features \<open>checkGradientPoison\<close> divides the number of outliers, 0, by the number of
  features, 0: the quotient is NaN, which \<open>math.Min\<close> returns unchanged, and NaN lies in
  no interval.
\<close>

theorem checkGradientPoison_empty_sample_NaN:
  "checkGradientPoison empty_sample = NaN
   \<and> \<not> in_unit_interval (checkGradientPoison empty_sample)
   \<and> in_unit_interval (checkBackdoor empty_sample)
   \<and> in_unit_interval (checkLabelFlip empty_sample)
   \<and> in_unit_interval (checkFeaturePoison empty_sample)"
proof -
  have "checkGradientPoison empty_sample = NaN"
    by (rule checkGradientPoison_empty) (simp add: empty_sample_def)
  then show ?thesis
    by (simp add: checkBackdoor_unit checkLabelFlip_unit checkFeaturePoison_unit
        in_unit_interval_iff[of NaN])
qed


section \<open>The verdict of analyzeSample\<close>

lemma threshold_NewDetector [simp]:
  "threshold NewDetector TypeBackdoor = Fin (7/10)"
  "threshold NewDetector TypeLabelFlip = Fin (6/10)"
  "threshold NewDetector TypeGradientPoison = Fin (65/100)"
  "threshold NewDetector TypeFeaturePoison = Fin (7/10)"
  by (simp_all add: threshold_def NewDetector_def TypeBackdoor_def TypeLabelFlip_def
      TypeGradientPoison_def TypeFeaturePoison_def TypeDataPoison_def)

lemma backdoor_sample_scores:
  "checkBackdoor backdoor_sample = Fin (8/10)"
  "checkLabelFlip backdoor_sample = Fin 0"
  "checkGradientPoison backdoor_sample = Fin 0"
  "checkFeaturePoison backdoor_sample = Fin 0"
proof -
  have mean: "calculateMean (Features backdoor_sample) = Fin 10"
    by (simp add: backdoor_sample_def calculateMean_def float64_of_int_def)
  have stdDev: "calculateStdDev (Features backdoor_sample) (Fin 10) = Fin 0"
    by (simp add: backdoor_sample_def calculateStdDev_def float64_of_int_def fsub_def)
  show "checkBackdoor backdoor_sample = Fin (8/10)"
    by (simp add: checkBackdoor_def backdoor_sample_def calculateAverage_def Let_def
        fsub_def fmin_def upt_rec)
  show "checkLabelFlip backdoor_sample = Fin 0"
    by (simp add: checkLabelFlip_def calculateLabelLikelihood_def)
  show "checkGradientPoison backdoor_sample = Fin 0"
    unfolding checkGradientPoison_def mean stdDev Let_def
    by (simp add: backdoor_sample_def float64_of_int_def fmin_def)
  show "checkFeaturePoison backdoor_sample = Fin 0"
    unfolding checkFeaturePoison_def mean stdDev Let_def
    by (simp add: backdoor_sample_def fmin_def)
qed

lemma backdoor_sample_poisoned: "IsPoisoned (analyzeSample NewDetector backdoor_sample)"
  by (simp add: analyzeSample_def backdoor_sample_scores Let_def)

text \<open>
  Claim C4. For every sample, the verdict of \<open>analyzeSample\<close> (with the thresholds of
  \<open>NewDetector\<close>) satisfies: if \<open>IsPoisoned\<close> is true then \<open>Score\<close> is strictly above
  the threshold of the recorded \<open>Type\<close>; \<open>IsPoisoned\<close> is true exactly when some check
  exceeded its threshold; then \<open>Score\<close> is the maximum of the scores of the checks that
  exceeded their thresholds (it is one of them and none of them is above it), and
  \<open>Type\<close>, \<open>Description\<close> and \<open>Evidence\<close> are those of the last such check in the
  order backdoor, label_flip, gradient_poison, feature_poison. When no check exceeded its
  threshold the four fields keep their zero values.
\<close>

theorem analyzeSample_verdict:
  "(IsPoisoned (analyzeSample NewDetector sample) \<longrightarrow>
      fgt (Score (analyzeSample NewDetector sample))
          (threshold NewDetector (Type (analyzeSample NewDetector sample))))
   \<and> IsPoisoned (analyzeSample NewDetector sample) = (exceeded NewDetector sample \<noteq> [])
   \<and> (if exceeded NewDetector sample = []
       then Score (analyzeSample NewDetector sample) = Fin 0
          \<and> Type (analyzeSample NewDetector sample) = ''''
          \<and> Description (analyzeSample NewDetector sample) = ''''
          \<and> Evidence (analyzeSample NewDetector sample) = ''''
       else Score (analyzeSample NewDetector sample)
              \<in> set (map fst (exceeded NewDetector sample))
          \<and> list_all (\<lambda>x. fle x (Score (analyzeSample NewDetector sample)))
               (map fst (exceeded NewDetector sample))
          \<and> (Type (analyzeSample NewDetector sample),
              Description (analyzeSample NewDetector sample),
              Evidence (analyzeSample NewDetector sample))
             = snd (last (exceeded NewDetector sample)))"
proof -
  define v where "v = analyzeSample NewDetector sample"
  define ex where "ex = exceeded NewDetector sample"
  note defs = v_def ex_def analyzeSample_def exceeded_def checks_def Let_def
  have "(IsPoisoned v \<longrightarrow> fgt (Score v) (threshold NewDetector (Type v)))
    \<and> IsPoisoned v = (ex \<noteq> [])
    \<and> (if ex = []
        then Score v = Fin 0 \<and> Type v = [] \<and> Description v = [] \<and> Evidence v = []
        else Score v \<in> set (map fst ex) \<and> list_all (\<lambda>x. fle x (Score v)) (map fst ex)
           \<and> (Type v, Description v, Evidence v) = snd (last ex))"
  proof (cases "fgt (checkBackdoor sample) (Fin (7/10))";
      cases "fgt (checkLabelFlip sample) (Fin (6/10))";
      cases "fgt (checkGradientPoison sample) (Fin (65/100))";
      cases "fgt (checkFeaturePoison sample) (Fin (7/10))")
  qed (auto simp: defs dest!: fgt_Fin_cases)
  then show ?thesis
    unfolding v_def ex_def .
qed

theorem analyzeSample_verdict_witness:
  "IsPoisoned (analyzeSample NewDetector backdoor_sample)
   \<and> fgt (Score (analyzeSample NewDetector backdoor_sample))
         (threshold NewDetector (Type (analyzeSample NewDetector backdoor_sample)))
   \<and> Type (analyzeSample NewDetector backdoor_sample) = TypeBackdoor"
proof -
  have poisoned: "IsPoisoned (analyzeSample NewDetector backdoor_sample)"
    by (rule backdoor_sample_poisoned)
  have "IsPoisoned (analyzeSample NewDetector backdoor_sample) \<longrightarrow>
      fgt (Score (analyzeSample NewDetector backdoor_sample))
          (threshold NewDetector (Type (analyzeSample NewDetector backdoor_sample)))"
    using analyzeSample_verdict[of backdoor_sample] by (rule conjunct1)
  with poisoned have
    "fgt (Score (analyzeSample NewDetector backdoor_sample))
         (threshold NewDetector (Type (analyzeSample NewDetector backdoor_sample)))"
    by (rule rev_mp)
  moreover have "Type (analyzeSample NewDetector backdoor_sample) = TypeBackdoor"
    by (simp add: analyzeSample_def backdoor_sample_scores Let_def)
  ultimately show ?thesis
    using poisoned by simp
qed


section \<open>Detect\<close>

lemma Confidence_unit: "in_unit_interval (Confidence (analyzeSample d sample))"
  using checkBackdoor_unit[of sample] checkLabelFlip_unit[of sample]
    checkFeaturePoison_unit[of sample] checkGradientPoison_unit_or_NaN[of sample]
  by (auto simp: analyzeSample_def Let_def in_unit_interval_iff)

lemma unpoisoned_Confidence:
  "IsPoisoned (analyzeSample d sample) \<or> Confidence (analyzeSample d sample) = Fin 0"
  by (simp add: analyzeSample_def Let_def)

text \<open>The loop of \<open>Detect\<close> appends one verdict per sample, in order, and counts the
  poisoned ones.\<close>

lemma foldl_detect_step:
  "foldl (detect_step d) r samples =
     r \<lparr> Samples := Samples r @ map (analyzeSample d) samples,
         PoisonedCount := PoisonedCount r
            + int (length (filter IsPoisoned (map (analyzeSample d) samples))) \<rparr>"
proof (induction samples arbitrary: r)
  case Nil
  then show ?case by simp
next
  case (Cons s samples)
  have "foldl (detect_step d) r (s # samples) = foldl (detect_step d) (detect_step d r s) samples"
    by simp
  also have "\<dots> = (detect_step d r s)
        \<lparr> Samples := Samples (detect_step d r s) @ map (analyzeSample d) samples,
          PoisonedCount := PoisonedCount (detect_step d r s)
            + int (length (filter IsPoisoned (map (analyzeSample d) samples))) \<rparr>"
    by (rule Cons.IH)
  also have "\<dots> = r \<lparr> Samples := Samples r @ map (analyzeSample d) (s # samples),
         PoisonedCount := PoisonedCount r
            + int (length (filter IsPoisoned (map (analyzeSample d) (s # samples)))) \<rparr>"
    by (simp add: detect_step_def Let_def)
  finally show ?case .
qed

lemma Detect_fields:
  "Samples (Detect d samples) = map (analyzeSample d) samples"
  "SampleCount (Detect d samples) = int (length samples)"
  "PoisonedCount (Detect d samples) =
     int (length (filter IsPoisoned (map (analyzeSample d) samples)))"
  "rIsPoisoned (Detect d samples) = (0 < PoisonedCount (Detect d samples))"
  "Method (Detect d samples) = ''ensemble_detection''"
  by (simp_all add: Detect_def Let_def foldl_detect_step)

lemma Detect_RiskScore: "RiskScore (Detect d samples) = calculateRiskScore (Detect d samples)"
  by (simp add: Detect_def Let_def calculateRiskScore_def)

lemma foldl_Confidence:
  "foldl (\<lambda>total sample. fadd total (Confidence sample)) acc vs
     = foldl fadd acc (map Confidence vs)"
  by (induction vs arbitrary: acc) auto

lemma Detect_risk_formula:
  "RiskScore (Detect d samples) =
     (if samples = [] then Fin 0
      else fadd
        (fmul (Fin (7/10))
           (fdiv (float64_of_int (PoisonedCount (Detect d samples)))
                 (float64_of_int (SampleCount (Detect d samples)))))
        (fmul (Fin (3/10))
           (arithmetic_mean (map Confidence (Samples (Detect d samples))))))"
  unfolding Detect_RiskScore
  by (simp add: calculateRiskScore_def Let_def foldl_Confidence arithmetic_mean_def
      Detect_fields fmul_commute[of _ "Fin (7/10)"] fmul_commute[of _ "Fin (3/10)"])

text \<open>
  Claim C1. For every sample sequence, \<open>Detect\<close> returns \<open>RiskScore\<close> equal to
  \<open>0.7 * (PoisonedCount / SampleCount) + 0.3 * meanConfidence\<close>, where
  \<open>meanConfidence\<close> is the arithmetic mean of the \<open>Confidence\<close> fields of all verdicts,
  one verdict per sample and an unpoisoned verdict with confidence 0; \<open>PoisonedCount\<close>
  counts the poisoned verdicts and \<open>SampleCount\<close> the samples; for the empty sequence
  \<open>RiskScore\<close> is 0.
\<close>

theorem Detect_RiskScore_formula:
  "RiskScore (Detect d samples) =
     (if samples = [] then Fin 0
      else fadd
        (fmul (Fin (7/10))
           (fdiv (float64_of_int (PoisonedCount (Detect d samples)))
                 (float64_of_int (SampleCount (Detect d samples)))))
        (fmul (Fin (3/10))
           (arithmetic_mean (map Confidence (Samples (Detect d samples))))))
   \<and> Samples (Detect d samples) = map (analyzeSample d) samples
   \<and> SampleCount (Detect d samples) = int (length samples)
   \<and> PoisonedCount (Detect d samples)
       = int (length (filter IsPoisoned (Samples (Detect d samples))))
   \<and> list_all (\<lambda>v. IsPoisoned v \<or> Confidence v = Fin 0) (Samples (Detect d samples))"
proof -
  have "list_all (\<lambda>v. IsPoisoned v \<or> Confidence v = Fin 0) (map (analyzeSample d) samples)"
    by (simp add: list_all_iff unpoisoned_Confidence)
  then show ?thesis
    using Detect_risk_formula[of d samples] by (simp add: Detect_fields)
qed

subsection \<open>Bounds\<close>

lemma sum_of_units:
  "list_all in_unit_interval cs \<Longrightarrow>
   \<exists>t. foldl fadd (Fin a) cs = Fin (a + t) \<and> 0 \<le> t \<and> t \<le> real (length cs)"
proof (induction cs arbitrary: a)
  case Nil
  then show ?case by simp
next
  case (Cons c cs)
  from Cons.prems obtain r where r: "c = Fin r" "0 \<le> r" "r \<le> 1"
    by (auto simp: in_unit_interval_iff)
  from Cons.prems have "list_all in_unit_interval cs"
    by simp
  from Cons.IH[OF this, of "a + r"] obtain t where
    t: "foldl fadd (Fin (a + r)) cs = Fin (a + r + t)" "0 \<le> t" "t \<le> real (length cs)"
    by auto
  show ?case
    by (rule exI[of _ "r + t"]) (use r t in \<open>simp add: add.assoc\<close>)
qed

lemma blend_bounds:
  fixes p t n :: real
  assumes "0 < n" "0 \<le> p" "p \<le> n" "0 \<le> t" "t \<le> n"
  shows "0 \<le> p / n * (7/10) + t / n * (3/10)" and "p / n * (7/10) + t / n * (3/10) \<le> 1"
proof -
  have q: "0 \<le> p / n" "p / n \<le> 1" "0 \<le> t / n" "t / n \<le> 1"
    using assms by (simp_all add: divide_le_eq)
  show "0 \<le> p / n * (7/10) + t / n * (3/10)"
    using q by simp
  show "p / n * (7/10) + t / n * (3/10) \<le> 1"
    using q by simp
qed

lemma Detect_bounds:
  "PoisonedCount (Detect d samples) \<le> SampleCount (Detect d samples)
   \<and> fle (Fin 0) (RiskScore (Detect d samples))
   \<and> fle (RiskScore (Detect d samples)) (Fin 1)"
proof (cases "samples = []")
  case True
  then show ?thesis
    by (simp add: Detect_RiskScore calculateRiskScore_def Detect_fields)
next
  case False
  let ?vs = "map (analyzeSample d) samples"
  let ?p = "length (filter IsPoisoned ?vs)"
  let ?n = "length samples"
  have n: "0 < ?n"
    using False by simp
  have p: "?p \<le> ?n"
    using length_filter_le[of IsPoisoned ?vs] by simp
  have "list_all in_unit_interval (map Confidence ?vs)"
    by (simp add: list_all_iff Confidence_unit)
  from sum_of_units[OF this, of 0] obtain t where
    t: "foldl fadd (Fin 0) (map Confidence ?vs) = Fin t" "0 \<le> t" "t \<le> real ?n"
    by auto
  have risk: "RiskScore (Detect d samples)
      = Fin (real ?p / real ?n * (7/10) + t / real ?n * (3/10))"
    using n t
    by (simp add: Detect_RiskScore calculateRiskScore_def Detect_fields Let_def
        foldl_Confidence float64_of_int_def)
  have "0 \<le> real ?p / real ?n * (7/10) + t / real ?n * (3/10)"
    and "real ?p / real ?n * (7/10) + t / real ?n * (3/10) \<le> 1"
    using blend_bounds[of "real ?n" "real ?p" t] n p t by simp_all
  then show ?thesis
    using p by (simp add: risk Detect_fields)
qed

text \<open>
  Claim C3. For every sample sequence (and every detector), the result of \<open>Detect\<close> has
  \<open>PoisonedCount <= SampleCount\<close> and \<open>0 <= RiskScore <= 1\<close>.
\<close>

theorem Detect_counts_and_risk_bounded:
  "PoisonedCount (Detect d samples) \<le> SampleCount (Detect d samples)
   \<and> in_unit_interval (RiskScore (Detect d samples))"
  using Detect_bounds[of d samples]
  by (simp add: in_unit_interval_def in_closed_range_def)


section \<open>Defend\<close>

lemma Defend_loop_find:
  "Defend_loop strats risk name =
     (case find (\<lambda>s. Name s = name) strats of
        None \<Rightarrow> \<lparr> Success = False, StrategyUsed = '''', Improvement = Fin 0,
                  RiskReduction = Fin 0, Cost = Fin 0 \<rparr>
      | Some s \<Rightarrow> \<lparr> Success = True, StrategyUsed = name,
                    Improvement = fmul (Effectiveness s) risk,
                    RiskReduction = fsub risk (fmul (Effectiveness s) risk),
                    Cost = Overhead s \<rparr>)"
  by (induction strats) (auto simp: Let_def)

text \<open>
  Claim C5. For every risk value and strategy name, \<open>Defend\<close> looks the name up in the
  catalog (whose names are distinct) by exact match. When an entry has the name, the
  result has \<open>Success\<close> true, the improvement is the entry's effectiveness times the risk,
  the risk reduction is the risk minus the improvement, and the cost is the entry's
  overhead. When no entry has the name, the result has \<open>Success\<close> false and the three
  numeric fields are 0. \<open>Defend\<close> returns a result in both cases.
\<close>

theorem Defend_catalog_lookup:
  "Defend NewDefender risk name =
     (case find (\<lambda>s. Name s = name) (strategies NewDefender) of
        None \<Rightarrow> \<lparr> Success = False, StrategyUsed = '''', Improvement = Fin 0,
                  RiskReduction = Fin 0, Cost = Fin 0 \<rparr>
      | Some s \<Rightarrow> \<lparr> Success = True, StrategyUsed = name,
                    Improvement = fmul (Effectiveness s) risk,
                    RiskReduction = fsub risk (fmul (Effectiveness s) risk),
                    Cost = Overhead s \<rparr>)
   \<and> distinct (map Name (strategies NewDefender))
   \<and> (find (\<lambda>s. Name s = name) (strategies NewDefender) = None)
       = (name \<notin> set (map Name (strategies NewDefender)))"
proof -
  have "distinct (map Name (strategies NewDefender))"
    by (simp add: NewDefender_def)
  moreover have "(find (\<lambda>s. Name s = name) (strategies NewDefender) = None)
       = (name \<notin> set (map Name (strategies NewDefender)))"
    by (auto simp: find_None_iff)
  ultimately show ?thesis
    by (simp add: Defend_def Defend_loop_find)
qed


section \<open>ApplyDefense\<close>

lemma ApplyDefense_filtering:
  "ApplyDefense NewDefender samples ''Input Filtering'' = Inr (filter isValidInput samples)"
  by (simp add: ApplyDefense_def NewDefender_def applyStrategy_def filterInputs_def)


lemma range_check_iff:
  "(\<not> (flt f (Fin (- 100)) \<or> fgt f (Fin 100)))
     = (f = NaN \<or> in_closed_range (Fin (- 100)) (Fin 100) f)"
  by (cases f) (auto simp: in_closed_range_def fgt_def fle_def feq_def)

lemma isValidInput_iff:
  "isValidInput sample =
     (Features sample \<noteq> [] \<and>
      list_all (\<lambda>f. f = NaN \<or> in_closed_range (Fin (- 100)) (Fin 100) f) (Features sample))"
  using range_check_iff
  by (auto simp: isValidInput_def list_ex_iff list_all_iff)

text \<open>
  Claim C7, as the code has it. \<open>ApplyDefense\<close> with the strategy Input Filtering
  (category filtering) never panics and returns, in the original order and unchanged, the
  samples whose feature sequence is non-empty and each of whose features is not below
  -100 and not above 100 in Go's comparison: a feature that lies in [-100, 100] or is
  NaN. Every other sample is removed.
\<close>

theorem ApplyDefense_filtering_keeps:
  "ApplyDefense NewDefender samples ''Input Filtering'' =
     Inr (filter (\<lambda>sample. Features sample \<noteq> [] \<and>
            list_all (\<lambda>f. f = NaN \<or> in_closed_range (Fin (- 100)) (Fin 100) f)
              (Features sample)) samples)"
  by (simp add: ApplyDefense_filtering isValidInput_iff[abs_def])

text \<open>
  Claim C7, as stated, fails: the sample whose only feature is NaN has a feature that does
  not lie in [-100, 100], and the filter retains it.
\<close>

theorem ApplyDefense_filtering_retains_NaN:
  "ApplyDefense NewDefender [nan_sample] ''Input Filtering'' = Inr [nan_sample]
   \<and> Features nan_sample = [NaN]
   \<and> \<not> in_closed_range (Fin (- 100)) (Fin 100) NaN"
  by (simp add: ApplyDefense_filtering isValidInput_def nan_sample_def in_closed_range_def)

subsection \<open>Outlier detection\<close>








section \<open>CalculateDefenseScore\<close>

lemma score_loop_results:
  "score_loop acc (map Some rs) = Inr (foldl fadd acc (map Improvement (filter Success rs)))"
  by (induction rs arbitrary: acc) auto

lemma CalculateDefenseScore_results:
  "CalculateDefenseScore (map Some rs) =
     Inr (if rs = [] then Fin 0
          else fdiv (foldl fadd (Fin 0) (map Improvement (filter Success rs)))
                 (float64_of_int (int (length rs))))"
  by (simp add: CalculateDefenseScore_def score_loop_results)

text \<open>
  Claim C8. For every sequence of defense results, \<open>CalculateDefenseScore\<close> returns the
  sum of \<open>Improvement\<close> over the successful results divided by the number of all
  results, and 0 for the empty sequence; one successful result with improvement 0.4
  gives 0.4, and that result with one failed result gives 0.2.
\<close>

theorem CalculateDefenseScore_mean_over_all:
  "CalculateDefenseScore (map Some rs) =
     Inr (if rs = [] then Fin 0
          else fdiv (foldl fadd (Fin 0) (map Improvement (filter Success rs)))
                 (float64_of_int (int (length rs))))
   \<and> CalculateDefenseScore [] = Inr (Fin 0)
   \<and> CalculateDefenseScore [Some success_result] = Inr (Fin (4/10))
   \<and> CalculateDefenseScore [Some success_result, Some failed_result] = Inr (Fin (2/10))"
proof -
  have "CalculateDefenseScore [] = Inr (Fin 0)"
    by (simp add: CalculateDefenseScore_def)
  moreover have "CalculateDefenseScore [Some success_result] = Inr (Fin (4/10))"
    by (simp add: CalculateDefenseScore_def success_result_def float64_of_int_def)
  moreover have
    "CalculateDefenseScore [Some success_result, Some failed_result] = Inr (Fin (2/10))"
    by (simp add: CalculateDefenseScore_def success_result_def failed_result_def
        float64_of_int_def)
  ultimately show ?thesis
    by (simp add: CalculateDefenseScore_results)
qed


section \<open>Defend on the worked example\<close>

subsection \<open>Rounding\<close>

lemma round_half_even_nearest: "\<bar>of_int (round_half_even y) - y\<bar> \<le> 1/2"
  unfolding round_half_even_def Let_def by (auto; linarith)

lemma round_half_even_of_int: "round_half_even (of_int n) = n"
  by (simp add: round_half_even_def)

lemma binary_exponent_eq:
  assumes "2 powi e \<le> \<bar>x\<bar>" and "\<bar>x\<bar> < 2 powi (e + 1)"
  shows "binary_exponent x = e"
proof -
  have pos: "0 < \<bar>x\<bar>"
    using assms(1) by (smt (verit) zero_less_power_int)
  have lower: "(2::real) powr (of_int e) = 2 powi e"
    by (simp add: powr_real_of_int')
  have upper: "(2::real) powr (of_int e + 1) = 2 powi (e + 1)"
    by (simp add: powr_add lower power_int_add)
  have "(2::real) powr (of_int e) \<le> \<bar>x\<bar> \<and> \<bar>x\<bar> < 2 powr (of_int e + 1)"
    using assms lower upper by simp
  then show ?thesis
    unfolding binary_exponent_def
    using floor_log_eq_powr_iff[of "\<bar>x\<bar>" 2 e] pos by simp
qed

text \<open>Rounding a number whose exponent is known.\<close>

lemma binary64_normal:
  assumes "2 powi e \<le> \<bar>x\<bar>" and "\<bar>x\<bar> < 2 powi (e + 1)" and "- 1022 \<le> e"
  shows "binary64 x =
     (if 2 powi 1024
           \<le> \<bar>real_of_int (round_half_even (x / 2 powi (e - 52))) * 2 powi (e - 52)\<bar>
      then inf_of_sign (0 < x)
      else Fin (of_int (round_half_even (x / 2 powi (e - 52))) * 2 powi (e - 52)))"
proof -
  have "x \<noteq> 0"
    using assms(1) by (smt (verit) zero_less_power_int)
  moreover have "max (binary_exponent x) (- 1022) = e"
    using binary_exponent_eq[OF assms(1,2)] assms(3) by simp
  ultimately show ?thesis
    by (simp add: binary64_def Let_def)
qed

text \<open>What \<open>binary64\<close> returns for a number of exponent \<open>e\<close> is a multiple of the
  unit in the last place with a significand of at most 53 bits, and it is at most half a
  unit away from the number.\<close>

lemma binary64_half_ulp:
  assumes "2 powi e \<le> \<bar>x\<bar>" and "\<bar>x\<bar> < 2 powi (e + 1)" and "- 1022 \<le> e"
    and "binary64 x = Fin y"
  shows "\<bar>y - x\<bar> \<le> 2 powi (e - 53)"
    and "\<exists>m::int. y = of_int m * 2 powi (e - 52) \<and> \<bar>m\<bar> \<le> 2 ^ 53"
proof -
  define u :: real where "u = 2 powi (e - 52)"
  have u: "0 < u"
    by (simp add: u_def)
  define m where "m = round_half_even (x / u)"
  have y: "y = of_int m * u"
    using assms(4) binary64_normal[OF assms(1-3)]
    by (auto simp: m_def u_def inf_of_sign_def split: if_splits)
  have near: "\<bar>of_int m - x / u\<bar> \<le> 1/2"
    unfolding m_def by (rule round_half_even_nearest)
  have "of_int m * u - x = (of_int m - x / u) * u"
    using u by (simp add: left_diff_distrib)
  then have "\<bar>of_int m * u - x\<bar> = \<bar>of_int m - x / u\<bar> * u"
    using u by (simp only: abs_mult abs_of_pos)
  also have "\<dots> \<le> 1/2 * u"
    using near u by (rule mult_right_mono[OF _ less_imp_le])
  also have "1/2 * u = 2 powi (e - 53)"
    by (simp add: u_def power_int_diff)
  finally show "\<bar>y - x\<bar> \<le> 2 powi (e - 53)"
    by (simp add: y)
  have "2 powi (e + 1) = 2 ^ 53 * u"
    by (simp add: u_def power_int_diff power_int_add)
  then have "\<bar>x\<bar> < 2 ^ 53 * u"
    using assms(2) by simp
  then have "\<bar>x / u\<bar> < 2 ^ 53"
    using u by (simp add: pos_divide_less_eq)
  then have "\<bar>real_of_int m\<bar> < 2 ^ 53 + 1"
    using near by linarith
  then have "real_of_int \<bar>m\<bar> < real_of_int (2 ^ 53 + 1)"
    by simp
  then have "\<bar>m\<bar> < 2 ^ 53 + 1"
    by (simp only: of_int_less_iff)
  then have "\<bar>m\<bar> \<le> 2 ^ 53"
    by simp
  then show "\<exists>m::int. y = of_int m * 2 powi (e - 52) \<and> \<bar>m\<bar> \<le> 2 ^ 53"
    using y u_def by blast
qed

text \<open>The literals 0.3, 0.75, 0.2, 0.225 and 0.075, the product \<open>0.75 * 0.3\<close> and the
  difference \<open>0.3 - 0.75 * 0.3\<close> of the rounded values.\<close>

lemma binary64_literals:
  "binary64 (3/10) = Fin (5404319552844595 / 2 ^ 54)"
  "binary64 (3/4) = Fin (3/4)"
  "binary64 (1/5) = Fin (3602879701896397 / 2 ^ 54)"
  "binary64 (9/40) = Fin (8106479329266893 / 2 ^ 55)"
  "binary64 (3/40) = Fin (5404319552844595 / 2 ^ 56)"
proof -
  show "binary64 (3/10) = Fin (5404319552844595 / 2 ^ 54)"
    by (subst binary64_normal[where e = "- 2"]) (simp_all add: round_half_even_def Let_def)
  show "binary64 (3/4) = Fin (3/4)"
    by (subst binary64_normal[where e = "- 1"]) (simp_all add: round_half_even_def Let_def)
  show "binary64 (1/5) = Fin (3602879701896397 / 2 ^ 54)"
    by (subst binary64_normal[where e = "- 3"]) (simp_all add: round_half_even_def Let_def)
  show "binary64 (9/40) = Fin (8106479329266893 / 2 ^ 55)"
    by (subst binary64_normal[where e = "- 3"]) (simp_all add: round_half_even_def Let_def)
  show "binary64 (3/40) = Fin (5404319552844595 / 2 ^ 56)"
    by (subst binary64_normal[where e = "- 4"]) (simp_all add: round_half_even_def Let_def)
qed

lemma binary64_product:
  "binary64 (3/4 * (5404319552844595 / 2 ^ 54)) = Fin (8106479329266892 / 2 ^ 55)"
  by (subst binary64_normal[where e = "- 3"]) (simp_all add: round_half_even_def Let_def)

lemma binary64_difference:
  "binary64 (5404319552844595 / 2 ^ 54 - 8106479329266892 / 2 ^ 55)
     = Fin (5404319552844596 / 2 ^ 56)"
  by (subst binary64_normal[where e = "- 4"]) (simp_all add: round_half_even_def Let_def)

text \<open>The difference \<open>0.3 - 0.75 * 0.3\<close> rounded once, as a fused multiply-subtract
  instruction computes it.\<close>

lemma binary64_fused_difference:
  "binary64 (5404319552844595 / 2 ^ 54 - 3/4 * (5404319552844595 / 2 ^ 54))
     = Fin (5404319552844595 / 2 ^ 56)"
  by (subst binary64_normal[where e = "- 4"]) (simp_all add: round_half_even_def Let_def)

subsection \<open>The two readings of the call\<close>

lemma Defend_exact_example:
  "Defend NewDefender (Fin (3/10)) ''Data Cleaning'' =
     \<lparr> Success = True, StrategyUsed = ''Data Cleaning'', Improvement = Fin (225/1000),
       RiskReduction = Fin (75/1000), Cost = Fin (2/10) \<rparr>"
  by (simp add: Defend_def NewDefender_def Let_def fsub_def)

lemma Defend_binary64_example:
  "Defend_binary64 NewDefender_binary64 (binary64 (3/10)) ''Data Cleaning'' =
     \<lparr> Success = True, StrategyUsed = ''Data Cleaning'',
       Improvement = Fin (8106479329266892 / 2 ^ 55),
       RiskReduction = Fin (5404319552844596 / 2 ^ 56),
       Cost = Fin (3602879701896397 / 2 ^ 54) \<rparr>"
proof -
  have "fmul_binary64 (Fin (3/4)) (Fin (5404319552844595 / 2 ^ 54))
      = Fin (8106479329266892 / 2 ^ 55)"
    unfolding fmul_binary64_def round_binary64_def fmul.simps float64.case
    by (rule binary64_product)
  moreover have
    "fsub_binary64 (Fin (5404319552844595 / 2 ^ 54)) (Fin (8106479329266892 / 2 ^ 55))
      = Fin (5404319552844596 / 2 ^ 56)"
    unfolding fsub_binary64_def round_binary64_def fsub_def fneg.simps fadd.simps
      float64.case minus_real_def[symmetric]
    by (rule binary64_difference)
  ultimately show ?thesis
    unfolding Defend_binary64_def NewDefender_binary64_def NewDefender_def
      binary64_literals(1)
    by (simp add: round_binary64_def Let_def binary64_literals)
qed

text \<open>
  Claim C9, as the code has it. \<open>Defend(0.3, "Data Cleaning")\<close> returns success with the
  catalog's overhead 0.2 as cost, improvement \<open>0.75 * 0.3\<close> and risk reduction
  \<open>0.3 - improvement\<close>. On the decimal values these are 0.225 and 0.075. In float64
  arithmetic, each operation rounded, the improvement is \<open>8106479329266892 / 2^55\<close>
  (0.22499999999999998), one unit in the last place below the float64 nearest to 0.225,
  and the risk reduction is \<open>5404319552844596 / 2^56\<close> (0.07500000000000001), one unit
  above the float64 nearest to 0.075; the cost is the float64 nearest to 0.2. (Where the
  compiler fuses the multiplication and the subtraction into one instruction, the risk
  reduction is rounded once and is the float64 nearest to 0.075; the improvement is
  the same.)
\<close>

theorem Defend_data_cleaning_values:
  "Defend NewDefender (Fin (3/10)) ''Data Cleaning'' =
     \<lparr> Success = True, StrategyUsed = ''Data Cleaning'', Improvement = Fin (225/1000),
       RiskReduction = Fin (75/1000), Cost = Fin (2/10) \<rparr>
   \<and> Defend_binary64 NewDefender_binary64 (binary64 (3/10)) ''Data Cleaning'' =
     \<lparr> Success = True, StrategyUsed = ''Data Cleaning'',
       Improvement = Fin (8106479329266892 / 2 ^ 55),
       RiskReduction = Fin (5404319552844596 / 2 ^ 56),
       Cost = binary64 (2/10) \<rparr>
   \<and> binary64 (225/1000) = Fin (8106479329266893 / 2 ^ 55)
   \<and> binary64 (75/1000) = Fin (5404319552844595 / 2 ^ 56)
   \<and> binary64 (3/10) = Fin (5404319552844595 / 2 ^ 54)
   \<and> binary64 (5404319552844595 / 2 ^ 54 - 3/4 * (5404319552844595 / 2 ^ 54))
       = binary64 (75/1000)"
proof -
  have "binary64 (2/10) = Fin (3602879701896397 / 2 ^ 54)"
    and "binary64 (225/1000) = Fin (8106479329266893 / 2 ^ 55)"
    and "binary64 (75/1000) = Fin (5404319552844595 / 2 ^ 56)"
    using binary64_literals by simp_all
  moreover have "Defend_binary64 NewDefender_binary64 (binary64 (3/10)) ''Data Cleaning'' =
     \<lparr> Success = True, StrategyUsed = ''Data Cleaning'',
       Improvement = Fin (8106479329266892 / 2 ^ 55),
       RiskReduction = Fin (5404319552844596 / 2 ^ 56),
       Cost = Fin (3602879701896397 / 2 ^ 54) \<rparr>"
    by (rule Defend_binary64_example)
  moreover note Defend_exact_example binary64_literals(1) binary64_fused_difference
  ultimately show ?thesis
    by (simp only: simp_thms)
qed

text \<open>
  Claim C9, as stated, fails on float64: the improvement that \<open>Defend\<close> computes for
  the risk 0.3 and the strategy Data Cleaning is neither the real number 0.225 nor the
  float64 that the literal 0.225 denotes.
\<close>

theorem Defend_data_cleaning_not_exact:
  "Improvement (Defend_binary64 NewDefender_binary64 (binary64 (3/10)) ''Data Cleaning'')
     \<noteq> binary64 (225/1000)
   \<and> Improvement (Defend_binary64 NewDefender_binary64 (binary64 (3/10)) ''Data Cleaning'')
     \<noteq> Fin (225/1000)
   \<and> Success (Defend_binary64 NewDefender_binary64 (binary64 (3/10)) ''Data Cleaning'')"
proof -
  have "binary64 (225/1000) = Fin (8106479329266893 / 2 ^ 55)"
    using binary64_literals by simp
  then show ?thesis
    by (simp add: Defend_binary64_example)
qed

end
